theory Spec2Isabelle
  imports Main
begin

section \<open>The RabbitMQ queue adapter \<open>RMQueue\<close> (src/studio/rabbit_queue.py)\<close>

text \<open>
  The class \<open>RMQueue\<close> keeps its state in instance attributes that are mutated by the
  public methods (\<open>enqueue\<close>, \<open>dequeue\<close>, \<open>acknowledge\<close>) on the caller's thread and by the
  pika callbacks on the IO loop thread. The embedding is explicit state passing over a
  record of these attributes.

  What is outside the file is modelled as follows.
  \<^item> Calls into the pika library (\<open>basic_publish\<close>, \<open>basic_nack\<close>, ...) have no result the
    code inspects; each is recorded, in order, in the field \<open>broker\<close>.
  \<^item> \<open>time.sleep(1)\<close> is the only point where the caller's thread yields in the model: the
    field \<open>clock\<close> counts the sleeps, and during the sleep at clock value \<open>t\<close> the IO loop
    thread runs the callbacks \<open>env t\<close> of an environment \<open>env\<close>, which the theorems leave
    arbitrary.
  \<^item> An exception raised inside a callback escapes the IO loop and ends the thread started
    in \<open>__init__\<close> (\<open>run\<close> only catches \<open>KeyboardInterrupt\<close>); it is kept in \<open>thread_error\<close>
    and no later callback runs.
\<close>

subsection \<open>Data\<close>

text \<open>
  The exceptions. \<open>enqueue\<close> raises plain \<open>Exception\<close>s that differ in their message only;
  they carry the names of the specification's taxonomy:
  \<^item> \<open>ConfigurationError\<close>: \<^verbatim>\<open>url for rmq not initialized\<close>;
  \<^item> \<open>InvalidArgument\<close>: \<^verbatim>\<open>message was None, it needs a meaningful value to be sent\<close>;
  \<^item> \<open>ChannelUnavailable\<close>: \<^verbatim>\<open>studioml request could not be sent\<close>;
  \<^item> \<open>PublishUnconfirmed\<close>: \<^verbatim>\<open>studioml message was never acknowledged to ...\<close>.
  The others are Python's own: \<open>ValueError\<close> of \<open>list.remove\<close>, \<open>IndexError\<close> of a list
  index, \<open>AttributeError\<close> of a method call on \<open>None\<close>; \<open>ConnectError\<close> stands for whatever
  \<open>connect()\<close> raises.
\<close>

datatype error =
    ConfigurationError
  | InvalidArgument
  | ChannelUnavailable
  | PublishUnconfirmed
  | ValueError
  | IndexError
  | AttributeError
  | ConnectError

text \<open>The pika objects the code holds: only \<open>channel.is_open\<close> is ever read.\<close>

datatype channel = Channel (is_open: bool)

datatype connection = Connection

text \<open>The consumer tag that \<open>basic_consume\<close> returns.\<close>

datatype consumer_tag = ConsumerTag nat

text \<open>The calls made on the pika channel and connection, with the arguments that vary.\<close>

datatype broker_call =
    BasicQos int
  | AddOnCloseCallback
  | ExchangeDeclare string string
  | BasicPublish string string string
  | BasicConsume string
  | BasicCancel "consumer_tag option"
  | BasicNack int
  | BasicAck int
  | ConnectionClose
  | IOLoopStop
  | AddTimeout int

record rmq =
  connection :: "connection option"
  channel :: "channel option"
  consumer :: "consumer_tag option"
  consume_ready :: bool
  deliveries :: "int list"
  acked :: int
  nacked :: int
  message_number :: int
  rmq_msg :: "string option"
  rmq_id :: "int option"
  stopping :: bool
  exchange :: string
  exchange_type :: string
  routing_key :: string
  url :: "string option"
  queue :: string
  broker :: "broker_call list"
  clock :: nat
  thread_error :: "error option"

text \<open>
  The frame passed to \<open>on_delivery_confirmation\<close>: \<open>method_frame.method.NAME\<close> and
  \<open>method_frame.method.delivery_tag\<close>.
\<close>

record method_frame =
  NAME :: string
  delivery_tag :: int

text \<open>A result of a method: the exception raised or the value returned, and the state left.\<close>

type_synonym 'a result = "(error + 'a) \<times> rmq"

subsection \<open>\<open>__init__\<close>\<close>

text \<open>
  The \<open>config\<close> argument is a nested dictionary; the value found at
  \<open>config['cloud']['queue']['rmq']\<close> is taken as it is, \<open>None\<close> included.
\<close>

type_synonym config = "string \<rightharpoonup> (string \<rightharpoonup> (string \<rightharpoonup> string option))"

text \<open>The default of the keyword argument \<open>amqp_url\<close> is the empty string.\<close>

definition default_amqp_url :: "string option" where
  "default_amqp_url = Some ''''"

definition config_url :: "config option \<Rightarrow> string option option" where
  "config_url config =
     (case config of
        None \<Rightarrow> None
      | Some cfg \<Rightarrow>
          (case cfg ''cloud'' of
             None \<Rightarrow> None
           | Some cloud \<Rightarrow>
               (case cloud ''queue'' of
                  None \<Rightarrow> None
                | Some q \<Rightarrow> q ''rmq'')))"

definition init :: "string \<Rightarrow> string \<Rightarrow> string option \<Rightarrow> config option \<Rightarrow> rmq" where
  "init queue_name route amqp_url config =
     \<lparr> connection = None, channel = None, consumer = None, consume_ready = False,
       deliveries = [], acked = 0, nacked = 0, message_number = 0,
       rmq_msg = None, rmq_id = None,
       stopping = False, exchange = ''StudioML.topic'', exchange_type = ''topic'',
       routing_key = route,
       url = (case config_url config of None \<Rightarrow> amqp_url | Some u \<Rightarrow> u),
       queue = queue_name,
       broker = [], clock = 0, thread_error = None \<rparr>"

subsection \<open>The callbacks run by the IO loop\<close>

definition call :: "broker_call \<Rightarrow> rmq \<Rightarrow> rmq" where
  "call c s = s\<lparr>broker := broker s @ [c]\<rparr>"

definition on_connection_closed :: "int \<Rightarrow> string \<Rightarrow> rmq \<Rightarrow> unit result" where
  "on_connection_closed reply_code reply_text s =
     (let s1 = s\<lparr>channel := None\<rparr> in
      case connection s1 of
        None \<Rightarrow> (Inl AttributeError, s1)
      | Some c \<Rightarrow>
          if stopping s1 then (Inr (), call IOLoopStop s1)
          else (Inr (), call (AddTimeout 5) s1))"

definition setup_exchange :: "string \<Rightarrow> rmq \<Rightarrow> unit result" where
  "setup_exchange exchange_name s =
     (case channel s of
        None \<Rightarrow> (Inl AttributeError, s)
      | Some ch \<Rightarrow> (Inr (), call (ExchangeDeclare exchange_name (exchange_type s)) s))"

definition on_channel_open :: "channel \<Rightarrow> rmq \<Rightarrow> unit result" where
  "on_channel_open ch s =
     (let s1 = s\<lparr>channel := Some ch\<rparr>;
          s2 = call (BasicQos 0) s1;
          s3 = call AddOnCloseCallback s2
      in setup_exchange (exchange s3) s3)"

definition on_channel_closed :: "int \<Rightarrow> string \<Rightarrow> rmq \<Rightarrow> unit result" where
  "on_channel_closed reply_code reply_text s =
     (let s1 = s\<lparr>channel := None\<rparr> in
      if \<not> stopping s1 then
        (case connection s1 of
           None \<Rightarrow> (Inl AttributeError, s1)
         | Some c \<Rightarrow> (Inr (), call ConnectionClose s1))
      else (Inr (), s1))"

text \<open>\<open>str.split(sep)\<close> for a one-character separator, and \<open>str.lower()\<close> on ASCII.\<close>

fun split_on :: "char \<Rightarrow> string \<Rightarrow> string list" where
  "split_on c [] = [[]]"
| "split_on c (x # xs) =
     (if x = c then [] # split_on c xs
      else (case split_on c xs of
              [] \<Rightarrow> [[x]]
            | w # ws \<Rightarrow> (x # w) # ws))"

definition lower_char :: "char \<Rightarrow> char" where
  "lower_char c =
     (let n = (of_char c :: nat) in
      if 65 \<le> n \<and> n \<le> 90 then char_of (n + 32) else c)"

definition lower :: "string \<Rightarrow> string" where
  "lower w = map lower_char w"

text \<open>\<open>method_frame.method.NAME.split('.')[1].lower()\<close>\<close>

definition confirmation_type :: "method_frame \<Rightarrow> error + string" where
  "confirmation_type frame =
     (case split_on CHR ''.'' (NAME frame) of
        a # b # rest \<Rightarrow> Inr (lower b)
      | _ \<Rightarrow> Inl IndexError)"

text \<open>\<open>list.remove(x)\<close> drops the first occurrence and raises \<open>ValueError\<close> when there is none.\<close>

definition list_remove :: "int \<Rightarrow> int list \<Rightarrow> error + int list" where
  "list_remove x xs = (if x \<in> set xs then Inr (remove1 x xs) else Inl ValueError)"

definition on_delivery_confirmation :: "method_frame \<Rightarrow> rmq \<Rightarrow> unit result" where
  "on_delivery_confirmation frame s =
     (case confirmation_type frame of
        Inl e \<Rightarrow> (Inl e, s)
      | Inr ctype \<Rightarrow>
          (let s1 = (if ctype = ''ack'' then s\<lparr>acked := acked s + 1\<rparr>
                     else if ctype = ''nack'' then s\<lparr>nacked := nacked s + 1\<rparr>
                     else s)
           in case list_remove (delivery_tag frame) (deliveries s1) of
                Inl e \<Rightarrow> (Inl e, s1)
              | Inr ds \<Rightarrow> (Inr (), s1\<lparr>deliveries := ds\<rparr>)))"

text \<open>
  \<open>on_message(unused_channel, basic_deliver, properties, body)\<close>: of \<open>basic_deliver\<close> only the
  delivery tag is read.
\<close>

definition on_message :: "int \<Rightarrow> string \<Rightarrow> rmq \<Rightarrow> unit result" where
  "on_message tag body s =
     (let s1 = (case channel s of
                  None \<Rightarrow> s
                | Some ch \<Rightarrow> call (BasicCancel (consumer s)) s);
          s2 = s1\<lparr>consumer := None\<rparr>
      in case rmq_msg s2 of
           Some held \<Rightarrow>
             (case connection s2 of
                None \<Rightarrow> (Inr (), s2)
              | Some c \<Rightarrow>
                  (case channel s2 of
                     None \<Rightarrow> (Inl AttributeError, s2)
                   | Some ch \<Rightarrow> (Inr (), call (BasicNack tag) s2)))
         | None \<Rightarrow> (Inr (), s2\<lparr>rmq_msg := Some body, rmq_id := Some tag\<rparr>))"

text \<open>
  One turn of the \<open>while not self._stopping\<close> loop of \<open>run\<close>, up to the start of the IO
  loop: the bookkeeping is reset and \<open>connect()\<close> is called, which returns a connection or
  raises.
\<close>

definition run_iteration :: "connection option \<Rightarrow> rmq \<Rightarrow> unit result" where
  "run_iteration connected s =
     (if stopping s then (Inr (), s)
      else
        (let s1 = s\<lparr>connection := None\<rparr>;
             s2 = s1\<lparr>deliveries := [], acked := 0, nacked := 0, message_number := 0\<rparr>
         in case connected of
              None \<Rightarrow> (Inl ConnectError, s2)
            | Some c \<Rightarrow> (Inr (), s2\<lparr>connection := Some c\<rparr>)))"

text \<open>What the IO loop thread can do while the caller sleeps.\<close>

datatype event =
    OnConnectionClosed int string
  | OnChannelOpen channel
  | OnChannelClosed int string
  | OnDeliveryConfirmation method_frame
  | OnMessage int string
  | RunIteration "connection option"
  | ChannelIsOpen bool

fun handle :: "event \<Rightarrow> rmq \<Rightarrow> unit result" where
  "handle (OnConnectionClosed code txt) s = on_connection_closed code txt s"
| "handle (OnChannelOpen ch) s = on_channel_open ch s"
| "handle (OnChannelClosed code txt) s = on_channel_closed code txt s"
| "handle (OnDeliveryConfirmation frame) s = on_delivery_confirmation frame s"
| "handle (OnMessage tag body) s = on_message tag body s"
| "handle (RunIteration connected) s = run_iteration connected s"
| "handle (ChannelIsOpen b) s =
     (Inr (), (case channel s of None \<Rightarrow> s | Some ch \<Rightarrow> s\<lparr>channel := Some (Channel b)\<rparr>))"

definition callback :: "event \<Rightarrow> rmq \<Rightarrow> rmq" where
  "callback e s =
     (case thread_error s of
        Some err \<Rightarrow> s
      | None \<Rightarrow>
          (case handle e s of
             (Inl err, s') \<Rightarrow> s'\<lparr>thread_error := Some err\<rparr>
           | (Inr u, s') \<Rightarrow> s'))"

type_synonym env = "nat \<Rightarrow> event list"

text \<open>\<open>time.sleep(1)\<close>\<close>

definition sleep :: "env \<Rightarrow> rmq \<Rightarrow> rmq" where
  "sleep env s = fold callback (env (clock s)) (s\<lparr>clock := clock s + 1\<rparr>)"

subsection \<open>\<open>enqueue\<close>\<close>

definition channel_ready :: "rmq \<Rightarrow> bool" where
  "channel_ready s = (case channel s of None \<Rightarrow> False | Some ch \<Rightarrow> is_open ch)"

text \<open>
  The first loop, \<open>while tries != 0\<close>: it leaves with the tries that remain. For a negative
  \<open>retries\<close> the counter never reaches zero, so the loop is a partial function.
\<close>

partial_function (option) wait_for_channel :: "env \<Rightarrow> int \<Rightarrow> rmq \<Rightarrow> (int \<times> rmq) option" where
  "wait_for_channel env tries s =
     (if tries \<noteq> 0 then
        (case channel s of
           None \<Rightarrow> wait_for_channel env (tries - 1) (sleep env s)
         | Some ch \<Rightarrow>
             if \<not> is_open ch then wait_for_channel env (tries - 1) (sleep env s)
             else Some (tries, s))
      else Some (tries, s))"

text \<open>The second loop: sleep, then look for the message number in \<open>_deliveries\<close>.\<close>

partial_function (option) wait_for_confirm ::
  "env \<Rightarrow> int \<Rightarrow> int \<Rightarrow> rmq \<Rightarrow> int result option" where
  "wait_for_confirm env number tries s =
     (if tries \<noteq> 0 then
        (if number \<notin> set (deliveries (sleep env s)) then Some (Inr number, sleep env s)
         else wait_for_confirm env number (tries - 1) (sleep env s))
      else Some (Inl PublishUnconfirmed, s))"

declare wait_for_channel.simps [code]
declare wait_for_confirm.simps [code]

definition publish :: "string \<Rightarrow> rmq \<Rightarrow> rmq" where
  "publish body s = call (BasicPublish (exchange s) (routing_key s) body) s"

definition record_publish :: "rmq \<Rightarrow> rmq" where
  "record_publish s =
     (let s1 = s\<lparr>message_number := message_number s + 1\<rparr>
      in s1\<lparr>deliveries := deliveries s1 @ [message_number s1]\<rparr>)"

definition enqueue :: "string option \<Rightarrow> int \<Rightarrow> env \<Rightarrow> rmq \<Rightarrow> int result option" where
  "enqueue msg retries env s =
     (if url s = None then Some (Inl ConfigurationError, s)
      else
        (case msg of
           None \<Rightarrow> Some (Inl InvalidArgument, s)
         | Some body \<Rightarrow>
             (case wait_for_channel env retries s of
                None \<Rightarrow> None
              | Some (tries, s1) \<Rightarrow>
                  if tries = 0 then Some (Inl ChannelUnavailable, s1)
                  else
                    (case channel s1 of
                       None \<Rightarrow> Some (Inl AttributeError, s1)
                     | Some ch \<Rightarrow>
                         (let s2 = record_publish (publish body s1)
                          in wait_for_confirm env (message_number s2) retries s2)))))"

subsection \<open>\<open>dequeue\<close> and \<open>acknowledge\<close>\<close>

text \<open>
  The registration at the head of each turn of the \<open>dequeue\<close> loop. The tag pika returns is
  fresh; it is numbered by the length of the call log.
\<close>

definition ensure_consuming :: "rmq \<Rightarrow> rmq" where
  "ensure_consuming s =
     (if consumer s = None \<and> channel s \<noteq> None
      then (call (BasicConsume (queue s)) s)\<lparr>consumer := Some (ConsumerTag (length (broker s)))\<rparr>
      else s)"

text \<open>
  \<open>for i in range(timeout + 1)\<close>, over the list of the values of \<open>i\<close> that remain. When the
  range is exhausted (it is empty for a negative \<open>timeout\<close>) the method falls off its end
  and returns \<open>None\<close>.
\<close>

fun dequeue_loop ::
  "env \<Rightarrow> int \<Rightarrow> int list \<Rightarrow> rmq \<Rightarrow> (string \<times> int option) option \<times> rmq" where
  "dequeue_loop env timeout [] s = (None, s)"
| "dequeue_loop env timeout (i # rest) s =
     (let s1 = ensure_consuming s in
      case rmq_msg s1 of
        Some body \<Rightarrow> (Some (body, rmq_id s1), s1)
      | None \<Rightarrow>
          if i \<ge> timeout then (None, s1)
          else dequeue_loop env timeout rest (sleep env s1))"

definition dequeue :: "int \<Rightarrow> env \<Rightarrow> rmq \<Rightarrow> (string \<times> int option) option \<times> rmq" where
  "dequeue timeout env s = dequeue_loop env timeout [0..timeout] s"

text \<open>One turn of the loop that finds no message: the registration, then the sleep.\<close>

definition dequeue_turn :: "env \<Rightarrow> rmq \<Rightarrow> rmq" where
  "dequeue_turn env s = sleep env (ensure_consuming s)"

definition acknowledge :: "int \<Rightarrow> rmq \<Rightarrow> unit \<times> rmq" where
  "acknowledge ack_id s =
     (let s1 = s\<lparr>rmq_msg := None\<rparr>;
          s2 = s1\<lparr>rmq_id := None\<rparr>
      in case channel s2 of
           None \<Rightarrow> ((), s2)
         | Some ch \<Rightarrow> ((), call (BasicAck ack_id) s2))"

subsection \<open>The environment and the caller\<close>

text \<open>
  A reconnect is a new turn of the loop of \<open>run\<close>; a delivery is a call of \<open>on_message\<close>. One
  connection lifetime is an environment without reconnects.
\<close>

fun is_reconnect :: "event \<Rightarrow> bool" where
  "is_reconnect (RunIteration connected) = True"
| "is_reconnect e = False"

fun is_delivery :: "event \<Rightarrow> bool" where
  "is_delivery (OnMessage tag body) = True"
| "is_delivery e = False"

definition no_reconnect :: "env \<Rightarrow> bool" where
  "no_reconnect env = (\<forall>t. list_all (\<lambda>e. \<not> is_reconnect e) (env t))"

definition no_delivery :: "env \<Rightarrow> bool" where
  "no_delivery env = (\<forall>t. list_all (\<lambda>e. \<not> is_delivery e) (env t))"

text \<open>A caller that makes one \<open>enqueue\<close> call after the other, and the numbers it got back.\<close>

fun enqueue_all ::
  "(string option \<times> int) list \<Rightarrow> env \<Rightarrow> rmq \<Rightarrow> ((error + int) list \<times> rmq) option" where
  "enqueue_all [] env s = Some ([], s)"
| "enqueue_all ((msg, retries) # calls) env s =
     (case enqueue msg retries env s of
        None \<Rightarrow> None
      | Some (r, s1) \<Rightarrow>
          (case enqueue_all calls env s1 of
             None \<Rightarrow> None
           | Some (rs, s2) \<Rightarrow> Some (r # rs, s2)))"

fun returned :: "(error + int) list \<Rightarrow> int list" where
  "returned [] = []"
| "returned (Inl e # rs) = returned rs"
| "returned (Inr n # rs) = n # returned rs"

text \<open>
  A caller that calls \<open>dequeue\<close> again and again without acknowledging, and lets time pass
  in between; \<open>perform\<close> collects what the \<open>dequeue\<close> calls return.
\<close>

datatype action = Dequeue int | Wait

fun perform ::
  "env \<Rightarrow> action list \<Rightarrow> rmq \<Rightarrow> (string \<times> int option) option list \<times> rmq" where
  "perform env [] s = ([], s)"
| "perform env (Dequeue timeout # acts) s =
     (case dequeue timeout env s of
        (r, s1) \<Rightarrow> (case perform env acts s1 of (rs, s2) \<Rightarrow> (r # rs, s2)))"
| "perform env (Wait # acts) s = perform env acts (sleep env s)"

subsection \<open>Example states and environments\<close>

definition quiet :: env where
  "quiet = (\<lambda>t. [])"

definition fresh :: rmq where
  "fresh = init ''work'' ''studio'' (Some ''amqp://broker'') None"

definition ready :: rmq where
  "ready = fresh\<lparr>connection := Some Connection, channel := Some (Channel True)\<rparr>"

text \<open>\<open>RMQueue('work', 'studio')\<close>: neither \<open>amqp_url\<close> nor \<open>config\<close> is given.\<close>

definition unconfigured :: rmq where
  "unconfigured = init ''work'' ''studio'' default_amqp_url None"

definition ack_frame :: "int \<Rightarrow> method_frame" where
  "ack_frame tag = \<lparr>NAME = ''Basic.Ack'', delivery_tag = tag\<rparr>"

definition nack_frame :: "int \<Rightarrow> method_frame" where
  "nack_frame tag = \<lparr>NAME = ''Basic.Nack'', delivery_tag = tag\<rparr>"

text \<open>The broker confirms tag 1 during the first sleep.\<close>

definition confirm_first :: env where
  "confirm_first = (\<lambda>t. if t = 0 then [OnDeliveryConfirmation (ack_frame 1)] else [])"

definition holding :: rmq where
  "holding = ready\<lparr>rmq_msg := Some ''first'', rmq_id := Some 1\<rparr>"

text \<open>Tags 1 and 2 are pending.\<close>

definition two_pending :: rmq where
  "two_pending = ready\<lparr>deliveries := [1, 2], message_number := 2\<rparr>"

text \<open>During the sleep at clock value \<open>t\<close> the broker confirms tag \<open>t + 1\<close>.\<close>

definition confirm_each :: env where
  "confirm_each = (\<lambda>t. [OnDeliveryConfirmation (ack_frame (int t + 1))])"

text \<open>A message is delivered during the second sleep.\<close>

definition deliver_second :: env where
  "deliver_second = (\<lambda>t. if t = 1 then [OnMessage 7 ''job''] else [])"

text \<open>
  During every sleep: one more delivery, the loss of the channel and of the connection,
  and a reconnect.
\<close>

definition churn :: env where
  "churn = (\<lambda>t. [OnMessage 2 ''second'', OnChannelClosed 0 ''gone'', OnConnectionClosed 0 ''gone'',
                  RunIteration (Some Connection)])"

text \<open>
  The loop of \<open>run\<close> connects, the channel opens and a first message is delivered.
\<close>

definition after_first_delivery :: rmq where
  "after_first_delivery =
     fold callback [OnChannelOpen (Channel True), OnMessage 1 ''first'']
       (callback (RunIteration (Some Connection)) fresh)"

section \<open>Properties\<close>

lemmas handler_defs =
  on_connection_closed_def on_channel_open_def setup_exchange_def on_channel_closed_def
  on_delivery_confirmation_def list_remove_def on_message_def run_iteration_def call_def

lemmas state_defs = fresh_def ready_def init_def config_url_def

lemmas example_defs =
  quiet_def fresh_def ready_def unconfigured_def ack_frame_def nack_frame_def
  confirm_first_def holding_def init_def config_url_def
  default_amqp_url_def

lemma confirmation_type_ack:
  "confirmation_type \<lparr>NAME = ''Basic.Ack'', delivery_tag = t\<rparr> = Inr ''ack''"
  by code_simp

lemma confirmation_type_nack:
  "confirmation_type \<lparr>NAME = ''Basic.Nack'', delivery_tag = t\<rparr> = Inr ''nack''"
  by code_simp

lemmas eval_defs =
  enqueue_def wait_for_channel.simps wait_for_confirm.simps sleep_def
  publish_def record_publish_def call_def callback_def on_delivery_confirmation_def
  confirmation_type_ack list_remove_def Let_def

subsection \<open>What the callbacks and the sleep leave alone\<close>

lemma handle_clock: "clock (snd (handle e s)) = clock s"
  by (cases e) (auto simp: handler_defs Let_def split: option.splits sum.splits)

lemma callback_cases:
  "callback e s = s \<or> callback e s = snd (handle e s) \<or>
   (\<exists>err. callback e s = (snd (handle e s))\<lparr>thread_error := Some err\<rparr>)"
  by (cases "handle e s") (auto simp: callback_def split: option.splits sum.splits)

lemma callback_clock: "clock (callback e s) = clock s"
  using callback_cases [of e s] handle_clock [of e s] by auto

lemma fold_callback_clock: "clock (fold callback es s) = clock s"
  by (induction es arbitrary: s) (simp_all add: callback_clock)

lemma sleep_clock: "clock (sleep env s) = Suc (clock s)"
  by (simp add: sleep_def fold_callback_clock)


lemma handle_held:
  "rmq_msg s = Some b \<Longrightarrow>
   rmq_msg (snd (handle e s)) = Some b \<and> rmq_id (snd (handle e s)) = rmq_id s"
  by (cases e) (auto simp: handler_defs Let_def split: option.splits sum.splits)

lemma callback_held:
  "rmq_msg s = Some b \<Longrightarrow>
   rmq_msg (callback e s) = Some b \<and> rmq_id (callback e s) = rmq_id s"
  using callback_cases [of e s] handle_held [of s b e] by auto

lemma fold_callback_held:
  "rmq_msg s = Some b \<Longrightarrow>
   rmq_msg (fold callback es s) = Some b \<and> rmq_id (fold callback es s) = rmq_id s"
  by (induction es arbitrary: s) (simp_all add: callback_held)

lemma sleep_held:
  "rmq_msg s = Some b \<Longrightarrow>
   rmq_msg (sleep env s) = Some b \<and> rmq_id (sleep env s) = rmq_id s"
  using fold_callback_held [of "s\<lparr>clock := clock s + 1\<rparr>" b "env (clock s)"]
  by (simp add: sleep_def)

lemma handle_no_delivery:
  "rmq_msg s = None \<Longrightarrow> \<not> is_delivery e \<Longrightarrow> rmq_msg (snd (handle e s)) = None"
  by (cases e) (auto simp: handler_defs Let_def split: option.splits sum.splits)

lemma callback_no_delivery:
  "rmq_msg s = None \<Longrightarrow> \<not> is_delivery e \<Longrightarrow> rmq_msg (callback e s) = None"
  using callback_cases [of e s] handle_no_delivery [of s e] by auto

lemma fold_callback_no_delivery:
  "rmq_msg s = None \<Longrightarrow> list_all (\<lambda>e. \<not> is_delivery e) es \<Longrightarrow>
   rmq_msg (fold callback es s) = None"
  by (induction es arbitrary: s) (simp_all add: callback_no_delivery)

lemma sleep_no_delivery:
  "no_delivery env \<Longrightarrow> rmq_msg s = None \<Longrightarrow> rmq_msg (sleep env s) = None"
  using fold_callback_no_delivery [of "s\<lparr>clock := clock s + 1\<rparr>" "env (clock s)"]
  by (simp add: sleep_def no_delivery_def)

lemma handle_message_number:
  "\<not> is_reconnect e \<Longrightarrow> message_number (snd (handle e s)) = message_number s"
  by (cases e) (auto simp: handler_defs Let_def split: option.splits sum.splits)

lemma callback_message_number:
  "\<not> is_reconnect e \<Longrightarrow> message_number (callback e s) = message_number s"
  using callback_cases [of e s] handle_message_number [of e s] by auto

lemma fold_callback_message_number:
  "list_all (\<lambda>e. \<not> is_reconnect e) es \<Longrightarrow>
   message_number (fold callback es s) = message_number s"
  by (induction es arbitrary: s) (simp_all add: callback_message_number)

lemma sleep_message_number:
  "no_reconnect env \<Longrightarrow> message_number (sleep env s) = message_number s"
  using fold_callback_message_number [of "env (clock s)" "s\<lparr>clock := clock s + 1\<rparr>"]
  by (simp add: sleep_def no_reconnect_def)


lemma handle_connection:
  "thread_error s = None \<Longrightarrow> connection s \<noteq> None \<Longrightarrow>
   fst (handle e s) \<noteq> Inr () \<or> connection (snd (handle e s)) \<noteq> None"
  by (cases e) (auto simp: handler_defs Let_def split: option.splits sum.splits)

lemma callback_connection:
  "thread_error s \<noteq> None \<or> connection s \<noteq> None \<Longrightarrow>
   thread_error (callback e s) \<noteq> None \<or> connection (callback e s) \<noteq> None"
  using handle_connection [of s e]
  by (cases "handle e s") (auto simp: callback_def split: option.splits sum.splits)

lemma fold_callback_connection:
  "thread_error s \<noteq> None \<or> connection s \<noteq> None \<Longrightarrow>
   thread_error (fold callback es s) \<noteq> None \<or> connection (fold callback es s) \<noteq> None"
proof (induction es arbitrary: s)
  case Nil
  then show ?case by simp
next
  case (Cons e es)
  from Cons.IH [OF callback_connection [OF Cons.prems, of e]] show ?case by simp
qed

lemma run_iteration_connection:
  "\<not> stopping s \<Longrightarrow>
   thread_error (callback (RunIteration connected) s) \<noteq> None \<or>
   connection (callback (RunIteration connected) s) \<noteq> None"
  by (auto simp: callback_def run_iteration_def Let_def split: option.splits)

subsection \<open>The loops of \<open>enqueue\<close>\<close>








lemma wait_for_channel_invariant:
  assumes "wait_for_channel env tries s = Some y"
    and "\<And>x. P x \<Longrightarrow> P (sleep env x)"
    and "P s"
  shows "P (snd y)"
proof -
  have "env = env \<longrightarrow> P s \<longrightarrow> P (snd y)"
    by (rule wait_for_channel.raw_induct
          [where P = "\<lambda>e tr st r. e = env \<longrightarrow> P st \<longrightarrow> P (snd r)", OF _ assms(1)])
       (use assms(2) in \<open>auto split: if_splits option.splits\<close>)
  with assms(3) show ?thesis by simp
qed

lemma wait_for_confirm_invariant:
  assumes "wait_for_confirm env number tries s = Some y"
    and "\<And>x. P x \<Longrightarrow> P (sleep env x)"
    and "P s"
  shows "P (snd y)"
proof -
  have "env = env \<longrightarrow> P s \<longrightarrow> P (snd y)"
    by (rule wait_for_confirm.raw_induct
          [where P = "\<lambda>e nr tr st r. e = env \<longrightarrow> P st \<longrightarrow> P (snd r)", OF _ assms(1)])
       (use assms(2) in \<open>auto split: if_splits\<close>)
  with assms(3) show ?thesis by simp
qed

lemma wait_for_confirm_number:
  assumes "wait_for_confirm env number tries s = Some y"
  shows "fst y = Inr n \<longrightarrow> n = number"
  by (rule wait_for_confirm.raw_induct
        [where P = "\<lambda>e nr tr st r. fst r = Inr n \<longrightarrow> n = nr", OF _ assms])
     (auto split: if_splits)

lemma enqueue_invariant:
  assumes "enqueue msg retries env s = Some (r, s1)"
    and "\<And>x. P x \<Longrightarrow> P (sleep env x)"
    and "\<And>x body. P x \<Longrightarrow> P (record_publish (publish body x))"
    and "P s"
  shows "P s1"
proof (cases "url s = None \<or> msg = None")
  case True
  with assms(1,4) show ?thesis
    by (auto simp: enqueue_def split: if_splits option.splits)
next
  case False
  then obtain body where msg: "msg = Some body" and url: "url s \<noteq> None" by auto
  from assms(1) msg url obtain t s0 where
    w: "wait_for_channel env retries s = Some (t, s0)"
    by (auto simp: enqueue_def split: option.splits)
  have p0: "P s0"
    using wait_for_channel_invariant [OF w assms(2) assms(4)] by simp
  show ?thesis
  proof (cases "t = 0 \<or> channel s0 = None")
    case True
    with assms(1) msg url w p0 show ?thesis
      by (auto simp: enqueue_def split: if_splits option.splits)
  next
    case False
    with assms(1) msg url w have
      c: "wait_for_confirm env (message_number (record_publish (publish body s0))) retries
            (record_publish (publish body s0)) = Some (r, s1)"
      by (auto simp: enqueue_def Let_def split: if_splits option.splits)
    show ?thesis
      using wait_for_confirm_invariant [OF c assms(2) assms(3) [OF p0]] by simp
  qed
qed

lemma enqueue_number:
  assumes "enqueue msg retries env s = Some (Inr n, s1)" and "no_reconnect env"
  shows "n = message_number s + 1 \<and> message_number s1 = n"
proof -
  from assms(1) obtain body where msg: "msg = Some body" and url: "url s \<noteq> None"
    by (auto simp: enqueue_def split: if_splits option.splits)
  from assms(1) msg url obtain t s0 where
    w: "wait_for_channel env retries s = Some (t, s0)"
    by (auto simp: enqueue_def split: option.splits)
  have m0: "message_number s0 = message_number s"
    using wait_for_channel_invariant
      [OF w, where P = "\<lambda>x. message_number x = message_number s"]
      sleep_message_number [OF assms(2)] by simp
  let ?p = "record_publish (publish body s0)"
  from assms(1) msg url w have
    c: "wait_for_confirm env (message_number ?p) retries ?p = Some (Inr n, s1)"
    by (auto simp: enqueue_def Let_def split: if_splits option.splits)
  have mp: "message_number ?p = message_number s + 1"
    using m0 by (simp add: record_publish_def publish_def call_def Let_def)
  have n: "n = message_number ?p"
    using wait_for_confirm_number [OF c, of n] by simp
  have "message_number s1 = message_number ?p"
    using wait_for_confirm_invariant
      [OF c, where P = "\<lambda>x. message_number x = message_number ?p"]
      sleep_message_number [OF assms(2)] by simp
  with n mp show ?thesis by simp
qed

lemma enqueue_message_number_mono:
  assumes "enqueue msg retries env s = Some (r, s1)" and "no_reconnect env"
  shows "message_number s \<le> message_number s1"
  using enqueue_invariant [OF assms(1), where P = "\<lambda>x. message_number s \<le> message_number x"]
    sleep_message_number [OF assms(2)]
  by (simp add: record_publish_def publish_def call_def Let_def)

lemma enqueue_all_numbers:
  assumes "no_reconnect env"
  shows "enqueue_all calls env s = Some (rs, s') \<Longrightarrow>
     sorted_wrt (<) (returned rs) \<and>
     (\<forall>n\<in>set (returned rs). message_number s < n \<and> n \<le> message_number s') \<and>
     message_number s \<le> message_number s'"
proof (induction calls arbitrary: s rs)
  case Nil
  then show ?case by simp
next
  case (Cons call calls)
  obtain msg retries where call: "call = (msg, retries)" by (cases call)
  from Cons.prems call obtain r s1 rs1 where
    e: "enqueue msg retries env s = Some (r, s1)"
    and rest: "enqueue_all calls env s1 = Some (rs1, s')"
    and rs: "rs = r # rs1"
    by (auto split: option.splits)
  have ih: "sorted_wrt (<) (returned rs1)"
    "\<forall>n\<in>set (returned rs1). message_number s1 < n \<and> n \<le> message_number s'"
    "message_number s1 \<le> message_number s'"
    using Cons.IH [OF rest] by auto
  have mono: "message_number s \<le> message_number s1"
    using enqueue_message_number_mono [OF e assms] .
  show ?case
  proof (cases r)
    case (Inl err)
    with rs ih mono show ?thesis by auto
  next
    case (Inr n)
    with e have "n = message_number s + 1 \<and> message_number s1 = n"
      using enqueue_number assms by blast
    with Inr rs ih mono show ?thesis by auto
  qed
qed

lemma returned_length: "length (returned rs) \<le> length rs"
  by (induction rs rule: returned.induct) simp_all

lemma enqueue_all_consecutive:
  assumes "no_reconnect env"
  shows "enqueue_all calls env s = Some (rs, s') \<Longrightarrow> length (returned rs) = length rs \<Longrightarrow>
     returned rs = map (\<lambda>i. message_number s + 1 + int i) [0..<length rs]"
proof (induction calls arbitrary: s rs)
  case Nil
  then show ?case by simp
next
  case (Cons call calls)
  obtain msg retries where call: "call = (msg, retries)" by (cases call)
  from Cons.prems(1) call obtain r s1 rs1 where
    e: "enqueue msg retries env s = Some (r, s1)"
    and rest: "enqueue_all calls env s1 = Some (rs1, s')"
    and rs: "rs = r # rs1"
    by (auto split: option.splits)
  from Cons.prems(2) rs returned_length [of rs1] obtain n where
    r: "r = Inr n" and all: "length (returned rs1) = length rs1"
    by (cases r) auto
  have n: "n = message_number s + 1" "message_number s1 = n"
    using enqueue_number [OF _ assms] e r by blast+
  have "returned rs1 = map (\<lambda>i. message_number s1 + 1 + int i) [0..<length rs1]"
    using Cons.IH [OF rest all] .
  then have "returned rs = n # map (\<lambda>i. n + 1 + int i) [0..<length rs1]"
    using rs r n by simp
  also have "\<dots> = map (\<lambda>i. message_number s + 1 + int i) [0..<length rs]"
    using rs n by (simp add: upt_conv_Cons map_Suc_upt [symmetric] del: upt_Suc)
  finally show ?case .
qed

lemma enqueue_confirmed_at_once:
  assumes "channel s = Some (Channel True)" and "url s \<noteq> None" and "thread_error s = None"
    and "deliveries s = []"
    and "env (clock s) = [OnDeliveryConfirmation (ack_frame (message_number s + 1))]"
  shows "enqueue (Some body) 1 env s =
    Some (Inr (message_number s + 1),
          s\<lparr>broker := broker s @ [BasicPublish (exchange s) (routing_key s) body],
            message_number := message_number s + 1, acked := acked s + 1,
            clock := Suc (clock s)\<rparr>)"
  using assms
  by (simp add: eval_defs ack_frame_def)

subsection \<open>The loop of \<open>dequeue\<close>\<close>

lemma ensure_consuming_fields:
  "rmq_msg (ensure_consuming s) = rmq_msg s"
  "rmq_id (ensure_consuming s) = rmq_id s"
  "clock (ensure_consuming s) = clock s"
  by (simp_all add: ensure_consuming_def call_def)

lemma dequeue_loop_timeout:
  "rmq_msg s = None \<Longrightarrow> no_delivery env \<Longrightarrow> i \<le> N \<Longrightarrow>
   fst (dequeue_loop env N [i..N] s) = None \<and>
   clock (snd (dequeue_loop env N [i..N] s)) = clock s + nat (N - i)"
proof (induction "nat (N - i)" arbitrary: i s)
  case 0
  then have "i = N" by simp
  with "0.prems" show ?case
    by (simp add: ensure_consuming_fields Let_def)
next
  case (Suc d)
  then have lt: "i < N" and d: "d = nat (N - (i + 1))" by simp_all
  let ?s = "sleep env (ensure_consuming s)"
  have none: "rmq_msg ?s = None"
    using Suc.prems by (simp add: sleep_no_delivery ensure_consuming_fields)
  have ih: "fst (dequeue_loop env N [i + 1..N] ?s) = None \<and>
      clock (snd (dequeue_loop env N [i + 1..N] ?s)) = clock ?s + nat (N - (i + 1))"
    using Suc.hyps(1) [OF d none Suc.prems(2)] lt by simp
  have "[i..N] = i # [i + 1..N]"
    using lt by (simp add: upto_rec1)
  then have "dequeue_loop env N [i..N] s = dequeue_loop env N [i + 1..N] ?s"
    using Suc.prems(1) lt by (simp add: ensure_consuming_fields Let_def)
  with ih lt show ?case
    by (simp add: sleep_clock ensure_consuming_fields nat_diff_distrib)
qed

lemma dequeue_loop_found:
  "i + int k \<le> N \<Longrightarrow> rmq_msg ((dequeue_turn env ^^ k) s) = Some b \<Longrightarrow>
   (\<forall>j<k. rmq_msg ((dequeue_turn env ^^ j) s) = None) \<Longrightarrow>
   dequeue_loop env N [i..N] s =
     (Some (b, rmq_id ((dequeue_turn env ^^ k) s)),
      ensure_consuming ((dequeue_turn env ^^ k) s))"
proof (induction k arbitrary: i s)
  case 0
  then have "[i..N] = i # [i + 1..N]" by (simp add: upto_rec1)
  with 0 show ?case by (simp add: ensure_consuming_fields Let_def)
next
  case (Suc k)
  let ?f = "dequeue_turn env"
  have lt: "i < N" using Suc.prems(1) by simp
  have now: "rmq_msg s = None"
    using Suc.prems(3) [rule_format, of 0] by simp
  have there: "rmq_msg ((?f ^^ k) (?f s)) = Some b"
    using Suc.prems(2) by (simp add: funpow_swap1)
  have before: "\<forall>j<k. rmq_msg ((?f ^^ j) (?f s)) = None"
  proof (intro allI impI)
    fix j assume "j < k"
    then have "rmq_msg ((?f ^^ Suc j) s) = None"
      using Suc.prems(3) by (metis Suc_less_eq)
    then show "rmq_msg ((?f ^^ j) (?f s)) = None" by (simp add: funpow_swap1)
  qed
  have "[i..N] = i # [i + 1..N]"
    using lt by (simp add: upto_rec1)
  then have "dequeue_loop env N [i..N] s = dequeue_loop env N [i + 1..N] (?f s)"
    using now lt by (simp add: ensure_consuming_fields Let_def dequeue_turn_def)
  also have "\<dots> = (Some (b, rmq_id ((?f ^^ k) (?f s))), ensure_consuming ((?f ^^ k) (?f s)))"
    using Suc.prems(1) there before by (intro Suc.IH) simp_all
  finally show ?case by (simp add: funpow_swap1)
qed

lemma polls_clock: "clock ((dequeue_turn env ^^ k) s) = clock s + k"
  by (induction k) (simp_all add: sleep_clock ensure_consuming_fields dequeue_turn_def)

lemma dequeue_held:
  "0 \<le> t \<Longrightarrow> rmq_msg s = Some b \<Longrightarrow>
   dequeue t env s = (Some (b, rmq_id s), ensure_consuming s)"
  using dequeue_loop_found [of 0 0 t env s b] by (simp add: dequeue_def)

lemma dequeue_negative: "timeout < 0 \<Longrightarrow> dequeue timeout env s = (None, s)"
  by (simp add: dequeue_def)

lemma perform_held:
  "rmq_msg s = Some b \<Longrightarrow> rmq_id s = h \<Longrightarrow>
   fst (perform env acts s) = [if 0 \<le> t then Some (b, h) else None. Dequeue t \<leftarrow> acts] \<and>
   rmq_msg (snd (perform env acts s)) = Some b \<and>
   rmq_id (snd (perform env acts s)) = h"
proof (induction acts arbitrary: s)
  case Nil
  then show ?case by simp
next
  case (Cons a acts)
  show ?case
  proof (cases a)
    case (Dequeue t)
    show ?thesis
    proof (cases "0 \<le> t")
      case True
      with Cons.prems have d: "dequeue t env s = (Some (b, h), ensure_consuming s)"
        by (simp add: dequeue_held)
      have "rmq_msg (ensure_consuming s) = Some b" "rmq_id (ensure_consuming s) = h"
        using Cons.prems by (simp_all add: ensure_consuming_fields)
      with Cons.IH [of "ensure_consuming s"] Dequeue d True show ?thesis
        by (simp add: case_prod_beta)
    next
      case False
      then have d: "dequeue t env s = (None, s)"
        by (simp add: dequeue_negative)
      with Cons.IH [of s] Cons.prems Dequeue False show ?thesis
        by (simp add: case_prod_beta)
    qed
  next
    case Wait
    have "rmq_msg (sleep env s) = Some b" "rmq_id (sleep env s) = h"
      using sleep_held [OF Cons.prems(1)] Cons.prems(2) by simp_all
    with Cons.IH [of "sleep env s"] Wait show ?thesis
      by simp
  qed
qed

subsection \<open>The consumer gate: \<open>on_message\<close>\<close>

text \<open>
  C1. A delivery reaches \<open>on_message\<close> through the consumer that \<open>dequeue\<close> registered on
  the channel, and the IO loop that runs the callback is started by \<open>run\<close> after it has
  stored the connection; so a connection and a channel exist when a delivery arrives. The
  last part of the theorem proves the first of the two: once the loop of \<open>run\<close> has
  begun a turn, whatever callbacks follow, a connection exists as long as the IO loop
  thread is alive.
  \<^item> With a message held, the delivery is negatively acknowledged (after the cancellation
    of the consumer, and without an exception), and a \<open>dequeue\<close> that follows still returns
    the held message: the new one never reaches the caller.
  \<^item> With a message held, body and handle stay as they are, in every state.
  \<^item> With no message held, the delivery becomes the held message, body and handle.
\<close>

theorem on_message_gate:
  "(connection s \<noteq> None \<and> channel s \<noteq> None \<and> rmq_msg s = Some held \<longrightarrow>
      fst (on_message tag body s) = Inr () \<and>
      broker (snd (on_message tag body s)) =
        broker s @ [BasicCancel (consumer s), BasicNack tag] \<and>
      fst (dequeue 0 env (snd (on_message tag body s))) = Some (held, rmq_id s)) \<and>
   (rmq_msg s = Some held \<longrightarrow>
      rmq_msg (snd (on_message tag body s)) = Some held \<and>
      rmq_id (snd (on_message tag body s)) = rmq_id s) \<and>
   (rmq_msg s = None \<longrightarrow>
      fst (on_message tag body s) = Inr () \<and>
      rmq_msg (snd (on_message tag body s)) = Some body \<and>
      rmq_id (snd (on_message tag body s)) = Some tag \<and>
      broker (snd (on_message tag body s)) =
        broker s @ (if channel s = None then [] else [BasicCancel (consumer s)])) \<and>
   (\<not> stopping s0 \<and>
    thread_error (fold callback es (callback (RunIteration connected) s0)) = None \<longrightarrow>
      connection (fold callback es (callback (RunIteration connected) s0)) \<noteq> None)"
proof -
  have kept: "rmq_msg (snd (on_message tag body s)) = Some held \<and>
      rmq_id (snd (on_message tag body s)) = rmq_id s" if "rmq_msg s = Some held"
    using that by (auto simp: on_message_def call_def Let_def split: option.splits)
  have nack: "fst (on_message tag body s) = Inr () \<and>
      broker (snd (on_message tag body s)) =
        broker s @ [BasicCancel (consumer s), BasicNack tag]"
    if "connection s \<noteq> None \<and> channel s \<noteq> None \<and> rmq_msg s = Some held"
    using that by (auto simp: on_message_def call_def Let_def split: option.splits)
  have unseen: "fst (dequeue 0 env (snd (on_message tag body s))) = Some (held, rmq_id s)"
    if "rmq_msg s = Some held"
    using kept [OF that] dequeue_held [of 0 "snd (on_message tag body s)" held env] by simp
  have taken: "fst (on_message tag body s) = Inr () \<and>
      rmq_msg (snd (on_message tag body s)) = Some body \<and>
      rmq_id (snd (on_message tag body s)) = Some tag \<and>
      broker (snd (on_message tag body s)) =
        broker s @ (if channel s = None then [] else [BasicCancel (consumer s)])"
    if "rmq_msg s = None"
    using that by (auto simp: on_message_def call_def Let_def split: option.splits)
  have alive: "connection (fold callback es (callback (RunIteration connected) s0)) \<noteq> None"
    if "\<not> stopping s0 \<and>
        thread_error (fold callback es (callback (RunIteration connected) s0)) = None"
    using that fold_callback_connection [OF run_iteration_connection, of s0 es connected]
    by blast
  show ?thesis
    using kept nack unseen taken alive by blast
qed

theorem on_message_gate_witness:
  "connection holding \<noteq> None \<and> channel holding \<noteq> None \<and> rmq_msg holding = Some ''first'' \<and>
   fst (on_message 2 ''second'' holding) = Inr () \<and>
   broker (snd (on_message 2 ''second'' holding)) = [BasicCancel None, BasicNack 2] \<and>
   rmq_msg (snd (on_message 2 ''second'' holding)) = Some ''first'' \<and>
   rmq_id (snd (on_message 2 ''second'' holding)) = Some 1 \<and>
   fst (dequeue 0 quiet (snd (on_message 2 ''second'' holding))) = Some (''first'', Some 1) \<and>
   rmq_msg ready = None \<and>
   rmq_msg (snd (on_message 1 ''first'' ready)) = Some ''first'' \<and>
   rmq_id (snd (on_message 1 ''first'' ready)) = Some 1 \<and>
   \<not> stopping fresh \<and> thread_error after_first_delivery = None \<and>
   rmq_msg after_first_delivery = Some ''first'' \<and>
   connection after_first_delivery \<noteq> None"
proof -
  have a: "\<not> stopping fresh" by (simp add: state_defs)
  have b: "thread_error after_first_delivery = None"
    "rmq_msg after_first_delivery = Some ''first''"
    by (simp_all add: after_first_delivery_def state_defs callback_def handler_defs Let_def)
  show ?thesis
    using on_message_gate [of holding "''first''" 2 "''second''" quiet fresh
        "[OnChannelOpen (Channel True), OnMessage 1 ''first'']" "Some Connection"]
      on_message_gate [of ready "''first''" 1 "''first''" quiet fresh "[]" "Some Connection"]
      a b
    by (simp add: holding_def state_defs after_first_delivery_def)
qed

subsection \<open>\<open>enqueue\<close>\<close>

text \<open>
  C2. An instance built without \<open>amqp_url\<close> and without \<open>config\<close> has the empty string as
  its URL, which is not \<open>None\<close>: \<open>enqueue\<close> does not raise the configuration error but
  waits for the channel (here one time unit) and raises the channel-unavailable error.
\<close>

theorem enqueue_default_url:
  "url unconfigured = Some '''' \<and>
   enqueue (Some ''hello'') 1 quiet unconfigured =
     Some (Inl ChannelUnavailable, unconfigured\<lparr>clock := 1\<rparr>)"
  by (simp add: example_defs enqueue_def wait_for_channel.simps sleep_def)

text \<open>
  C3, as the claim states it, fails: the empty string is a message like any other, it is
  published and its number returned.
\<close>

theorem enqueue_empty_message:
  "enqueue (Some '''') 1 confirm_first ready =
     Some (Inr 1, ready\<lparr>broker := [BasicPublish ''StudioML.topic'' ''studio'' ''''],
                        message_number := 1, acked := 1, clock := 1\<rparr>)"
  by (simp add: example_defs enqueue_def wait_for_channel.simps wait_for_confirm.simps sleep_def
      publish_def record_publish_def call_def callback_def on_delivery_confirmation_def
      confirmation_type_ack list_remove_def Let_def)

text \<open>
  C3, amended. On an instance whose URL is not \<open>None\<close>, \<open>enqueue\<close> with the message \<open>None\<close>
  raises the invalid-argument error at once: the state is untouched, so nothing was
  published and no time has passed.
\<close>

theorem enqueue_none_message:
  "url s \<noteq> None \<Longrightarrow> enqueue None retries env s = Some (Inl InvalidArgument, s)"
  by (simp add: enqueue_def)

theorem enqueue_none_message_witness:
  "url ready \<noteq> None \<and> enqueue None 10 quiet ready = Some (Inl InvalidArgument, ready)"
  using enqueue_none_message [of ready 10 quiet]
  by (simp add: example_defs)

text \<open>
  C9. With a URL and a message, \<open>enqueue(msg, retries=0)\<close> raises the channel-unavailable
  error in every state, also when the channel is open; the state is untouched, so nothing
  was published.
\<close>

theorem enqueue_zero_retries:
  "url s \<noteq> None \<Longrightarrow> enqueue (Some body) 0 env s = Some (Inl ChannelUnavailable, s)"
  by (simp add: enqueue_def wait_for_channel.simps)

theorem enqueue_zero_retries_witness:
  "url ready \<noteq> None \<and> channel_ready ready \<and>
   enqueue (Some ''hello'') 0 quiet ready = Some (Inl ChannelUnavailable, ready)"
  using enqueue_zero_retries [of ready "''hello''" quiet]
  by (simp add: example_defs channel_ready_def)




text \<open>
  C5. In an environment without reconnects, the numbers that successive \<open>enqueue\<close> calls
  return are strictly increasing and greater than the counter at the start, and when every
  call returns a number they are the counter plus 1, 2, 3 and so on; each returned number
  is the counter plus one, and it is the counter afterwards. The counter is 0 in a
  new instance, and a turn of the loop of \<open>run\<close> (a new connection attempt) sets the
  counter, the pending list and the ack and nack counters back to zero, so the first
  number returned after either is 1. A call that raises the publish-unconfirmed error has
  used a number all the same, so the returned numbers need not be consecutive.
\<close>

theorem sequence_numbers:
  assumes "no_reconnect env"
  shows "(enqueue_all calls env s = Some (rs, s') \<longrightarrow>
            sorted_wrt (<) (returned rs) \<and> (\<forall>n\<in>set (returned rs). message_number s < n))
       \<and> (enqueue_all calls env s = Some (rs, s') \<and> length (returned rs) = length rs \<longrightarrow>
            returned rs = map (\<lambda>i. message_number s + 1 + int i) [0..<length rs])
       \<and> (enqueue msg retries env s = Some (Inr n, s1) \<longrightarrow>
            n = message_number s + 1 \<and> message_number s1 = n)
       \<and> message_number (init queue_name route amqp_url config) = 0
       \<and> (\<not> stopping s0 \<longrightarrow>
            message_number (snd (run_iteration connected s0)) = 0 \<and>
            deliveries (snd (run_iteration connected s0)) = [] \<and>
            acked (snd (run_iteration connected s0)) = 0 \<and>
            nacked (snd (run_iteration connected s0)) = 0)
       \<and> (\<not> stopping s0 \<and>
          enqueue msg retries env (snd (run_iteration connected s0)) = Some (Inr n, s1) \<longrightarrow>
            n = 1)"
proof (intro conjI impI)
  assume "enqueue_all calls env s = Some (rs, s')"
  then show "sorted_wrt (<) (returned rs)" and "\<forall>n\<in>set (returned rs). message_number s < n"
    using enqueue_all_numbers [OF assms] by blast+
next
  assume "enqueue_all calls env s = Some (rs, s') \<and> length (returned rs) = length rs"
  then show "returned rs = map (\<lambda>i. message_number s + 1 + int i) [0..<length rs]"
    using enqueue_all_consecutive [OF assms] by blast
next
  assume "enqueue msg retries env s = Some (Inr n, s1)"
  then show "n = message_number s + 1" and "message_number s1 = n"
    using enqueue_number [OF _ assms] by blast+
next
  show "message_number (init queue_name route amqp_url config) = 0"
    by (simp add: init_def)
next
  assume "\<not> stopping s0"
  then show "message_number (snd (run_iteration connected s0)) = 0"
    and "deliveries (snd (run_iteration connected s0)) = []"
    and "acked (snd (run_iteration connected s0)) = 0"
    and "nacked (snd (run_iteration connected s0)) = 0"
    by (simp_all add: run_iteration_def Let_def split: option.splits)
next
  assume a: "\<not> stopping s0 \<and>
     enqueue msg retries env (snd (run_iteration connected s0)) = Some (Inr n, s1)"
  then have "message_number (snd (run_iteration connected s0)) = 0"
    by (simp add: run_iteration_def Let_def split: option.splits)
  with a show "n = 1"
    using enqueue_number [OF _ assms, of msg retries "snd (run_iteration connected s0)" n s1]
    by simp
qed

theorem sequence_numbers_witness:
  "no_reconnect confirm_each \<and>
   (\<exists>s'. enqueue_all [(Some ''a'', 1), (Some ''b'', 1)] confirm_each ready =
            Some ([Inr 1, Inr 2], s')) \<and>
   sorted_wrt (<) (returned [Inr 1, Inr (2::int)]) \<and>
   \<not> stopping two_pending \<and> message_number two_pending = 2 \<and>
   (\<exists>s1. enqueue (Some ''c'') 1 confirm_each
            (snd (run_iteration (Some Connection) two_pending)) = Some (Inr 1, s1))"
proof -
  have nr: "no_reconnect confirm_each"
    by (simp add: no_reconnect_def confirm_each_def)
  have e1: "enqueue (Some ''a'') 1 confirm_each ready =
      Some (Inr 1, ready\<lparr>broker := [BasicPublish ''StudioML.topic'' ''studio'' ''a''],
                         message_number := 1, acked := 1, clock := 1\<rparr>)"
    by (subst enqueue_confirmed_at_once) (simp_all add: state_defs confirm_each_def)
  have e2: "enqueue (Some ''b'') 1 confirm_each
       (ready\<lparr>broker := [BasicPublish ''StudioML.topic'' ''studio'' ''a''],
                         message_number := 1, acked := 1, clock := 1\<rparr>) =
      Some (Inr 2, ready\<lparr>broker := [BasicPublish ''StudioML.topic'' ''studio'' ''a'',
                                    BasicPublish ''StudioML.topic'' ''studio'' ''b''],
                         message_number := 2, acked := 2, clock := 2\<rparr>)"
    by (subst enqueue_confirmed_at_once) (simp_all add: state_defs confirm_each_def)
  have all: "enqueue_all [(Some ''a'', 1), (Some ''b'', 1)] confirm_each ready =
      Some ([Inr 1, Inr 2], ready\<lparr>broker := [BasicPublish ''StudioML.topic'' ''studio'' ''a'',
                                    BasicPublish ''StudioML.topic'' ''studio'' ''b''],
                         message_number := 2, acked := 2, clock := 2\<rparr>)"
    by (simp add: e1 e2 del: One_nat_def)
  have st: "\<not> stopping two_pending" and mn: "message_number two_pending = 2"
    by (simp_all add: two_pending_def state_defs)
  have e3: "\<exists>s1. enqueue (Some ''c'') 1 confirm_each
            (snd (run_iteration (Some Connection) two_pending)) = Some (Inr 1, s1)"
    by (subst enqueue_confirmed_at_once)
       (simp_all add: two_pending_def state_defs confirm_each_def run_iteration_def)
  have "sorted_wrt (<) (returned [Inr 1, Inr (2::int)])"
    using sequence_numbers [OF nr, where calls = "[(Some ''a'', 1), (Some ''b'', 1)]"
        and s = ready and rs = "[Inr 1, Inr 2]"] all
    by simp
  with nr all st mn e3 show ?thesis by simp
qed

subsection \<open>\<open>acknowledge\<close>\<close>

text \<open>
  C6. \<open>acknowledge(handle)\<close> clears the body and the handle of the held message in every
  state; \<open>basic_ack\<close> for the handle is the one call it makes on the broker, and it makes
  it exactly when a channel exists. It returns \<open>None\<close> either way.
\<close>

theorem acknowledge_clears_held:
  "rmq_msg (snd (acknowledge h s)) = None \<and> rmq_id (snd (acknowledge h s)) = None \<and>
   broker (snd (acknowledge h s)) =
     (if channel s = None then broker s else broker s @ [BasicAck h])"
  by (simp add: acknowledge_def call_def Let_def split: option.splits)

subsection \<open>\<open>on_delivery_confirmation\<close>\<close>

text \<open>
  C8. For a \<open>Basic.Ack\<close> or \<open>Basic.Nack\<close> frame whose tag is pending, the handler does not
  raise; it removes one occurrence of the tag from the pending list, which gets shorter by
  one (and, the pending tags being distinct, loses exactly this tag), and adds one to
  \<open>_acked\<close> for an ack and to \<open>_nacked\<close> for a nack, leaving the other counter.
\<close>

theorem on_delivery_confirmation_removes:
  assumes "delivery_tag frame \<in> set (deliveries s)"
    and "NAME frame = ''Basic.Ack'' \<or> NAME frame = ''Basic.Nack''"
  shows "\<exists>s'. on_delivery_confirmation frame s = (Inr (), s') \<and>
      deliveries s' = remove1 (delivery_tag frame) (deliveries s) \<and>
      length (deliveries s') + 1 = length (deliveries s) \<and>
      (distinct (deliveries s) \<longrightarrow>
         set (deliveries s') = set (deliveries s) - {delivery_tag frame}) \<and>
      acked s' = acked s + (if NAME frame = ''Basic.Ack'' then 1 else 0) \<and>
      nacked s' = nacked s + (if NAME frame = ''Basic.Nack'' then 1 else 0)"
proof -
  obtain t where frame: "frame = \<lparr>NAME = NAME frame, delivery_tag = t\<rparr>"
    and t: "t = delivery_tag frame"
    by (cases frame) simp
  have len: "length (remove1 t (deliveries s)) + 1 = length (deliveries s)"
    using assms(1) t by (simp add: length_remove1) (metis length_pos_if_in_set Suc_pred)
  from assms(2) show ?thesis
  proof
    assume a: "NAME frame = ''Basic.Ack''"
    then have "confirmation_type frame = Inr ''ack''"
      using frame confirmation_type_ack [of t] by simp
    with a assms(1) t len show ?thesis
      by (simp add: on_delivery_confirmation_def list_remove_def Let_def)
  next
    assume a: "NAME frame = ''Basic.Nack''"
    then have "confirmation_type frame = Inr ''nack''"
      using frame confirmation_type_nack [of t] by simp
    with a assms(1) t len show ?thesis
      by (simp add: on_delivery_confirmation_def list_remove_def Let_def)
  qed
qed

theorem on_delivery_confirmation_removes_witness:
  "delivery_tag (ack_frame 1) \<in> set (deliveries two_pending) \<and>
   (\<exists>s'. on_delivery_confirmation (ack_frame 1) two_pending = (Inr (), s') \<and>
      deliveries s' = [2] \<and> acked s' = 1 \<and> nacked s' = 0) \<and>
   delivery_tag (nack_frame 2) \<in> set (deliveries two_pending) \<and>
   (\<exists>s'. on_delivery_confirmation (nack_frame 2) two_pending = (Inr (), s') \<and>
      deliveries s' = [1] \<and> acked s' = 0 \<and> nacked s' = 1)"
  using on_delivery_confirmation_removes [of "ack_frame 1" two_pending]
    on_delivery_confirmation_removes [of "nack_frame 2" two_pending]
  by (auto simp: example_defs two_pending_def)

subsection \<open>\<open>dequeue\<close>\<close>

text \<open>
  C7. Let \<open>dequeue\<close> be called with \<open>timeout = N \<ge> 0\<close>. With no message held and no
  delivery in the environment it returns \<open>None\<close> (the model of \<open>dequeue\<close> has no raise, as the
  method has none) after exactly \<open>N\<close> sleeps. If the poll after \<open>k \<le> N\<close> sleeps is the first
  to find a held message, the call returns its body and handle at that poll, after \<open>k\<close>
  sleeps and without another one.
\<close>

theorem dequeue_timeout:
  assumes "0 \<le> N"
  shows "(rmq_msg s = None \<and> no_delivery env \<longrightarrow>
            fst (dequeue N env s) = None \<and>
            clock (snd (dequeue N env s)) = clock s + nat N)
       \<and> (k \<le> nat N \<and> rmq_msg ((dequeue_turn env ^^ k) s) = Some body \<and>
            (\<forall>j<k. rmq_msg ((dequeue_turn env ^^ j) s) = None) \<longrightarrow>
            dequeue N env s =
              (Some (body, rmq_id ((dequeue_turn env ^^ k) s)),
               ensure_consuming ((dequeue_turn env ^^ k) s)) \<and>
            clock (snd (dequeue N env s)) = clock s + k)"
proof (intro conjI impI)
  assume "rmq_msg s = None \<and> no_delivery env"
  then show "fst (dequeue N env s) = None" and "clock (snd (dequeue N env s)) = clock s + nat N"
    using dequeue_loop_timeout [of s env 0 N] assms by (simp_all add: dequeue_def)
next
  assume a: "k \<le> nat N \<and> rmq_msg ((dequeue_turn env ^^ k) s) = Some body \<and>
            (\<forall>j<k. rmq_msg ((dequeue_turn env ^^ j) s) = None)"
  then have "0 + int k \<le> N" using assms by linarith
  with a show d: "dequeue N env s =
              (Some (body, rmq_id ((dequeue_turn env ^^ k) s)),
               ensure_consuming ((dequeue_turn env ^^ k) s))"
    unfolding dequeue_def by (intro dequeue_loop_found) simp_all
  show "clock (snd (dequeue N env s)) = clock s + k"
    by (simp add: d ensure_consuming_fields polls_clock)
qed

theorem dequeue_timeout_witness:
  "(0::int) \<le> 3 \<and> rmq_msg ready = None \<and> no_delivery quiet \<and>
   fst (dequeue 3 quiet ready) = None \<and> clock ready = 0 \<and> clock (snd (dequeue 3 quiet ready)) = 3 \<and>
   fst (dequeue 3 deliver_second ready) = Some (''job'', Some 7) \<and>
   clock (snd (dequeue 3 deliver_second ready)) = 2"
proof -
  have n: "(0::int) \<le> 3" by simp
  have r: "rmq_msg ready = None" "clock ready = 0" by (simp_all add: state_defs)
  have q: "no_delivery quiet" by (simp add: no_delivery_def quiet_def)
  have a: "fst (dequeue 3 quiet ready) = None \<and> clock (snd (dequeue 3 quiet ready)) = 3"
    using dequeue_timeout [OF n, where s = ready and env = quiet and k = 0 and body = "''x''"] r q
    by simp
  have p: "(dequeue_turn deliver_second ^^ 2) ready =
      ready\<lparr>consumer := None, rmq_msg := Some ''job'', rmq_id := Some 7, clock := 2,
            broker := [BasicConsume ''work'', BasicCancel (Some (ConsumerTag 0))]\<rparr>"
    by (simp add: numeral_2_eq_2 state_defs deliver_second_def sleep_def ensure_consuming_def
        call_def callback_def on_message_def Let_def dequeue_turn_def)
  have p1: "rmq_msg ((dequeue_turn deliver_second ^^ j) ready) = None" if "j < 2" for j
  proof -
    from that have "j = 0 \<or> j = 1" by auto
    then show ?thesis
      by (auto simp: state_defs deliver_second_def sleep_def ensure_consuming_def call_def
          dequeue_turn_def)
  qed
  have b: "fst (dequeue 3 deliver_second ready) = Some (''job'', Some 7) \<and>
      clock (snd (dequeue 3 deliver_second ready)) = 2"
    using dequeue_timeout [OF n, where s = ready and env = deliver_second and k = 2
        and body = "''job''"] p p1 r
    by (simp add: ensure_consuming_fields state_defs)
  from n r q a b show ?thesis by simp
qed

text \<open>
  C10, as the claim states it, fails: for a negative timeout \<open>range(timeout + 1)\<close> is
  empty, and \<open>dequeue\<close> returns \<open>None\<close> without a look at the held message, which the call
  with the default timeout returns.
\<close>

theorem dequeue_negative_timeout:
  "rmq_msg holding = Some ''first'' \<and> rmq_id holding = Some 1 \<and>
   fst (dequeue 0 quiet holding) = Some (''first'', Some 1) \<and>
   dequeue (- 1) quiet holding = (None, holding)"
  using dequeue_held [of 0 holding "''first''" quiet]
  by (simp add: dequeue_negative holding_def state_defs)

text \<open>
  C10, amended. While a message is held, no \<open>dequeue\<close> call clears or changes it: of a
  caller that does not acknowledge, every call with a timeout that is not negative returns
  the same body and handle and every call with a negative timeout returns \<open>None\<close>, whatever
  time passes and whatever the callbacks do in between; the slot also survives every
  single callback, reconnects included, and every \<open>enqueue\<close> call. \<open>acknowledge\<close> clears it.
\<close>

theorem dequeue_keeps_held:
  assumes "rmq_msg s = Some body"
  shows "fst (perform env acts s) =
       [if 0 \<le> t then Some (body, rmq_id s) else None. Dequeue t \<leftarrow> acts] \<and>
     rmq_msg (snd (perform env acts s)) = Some body \<and>
     rmq_id (snd (perform env acts s)) = rmq_id s \<and>
     (\<forall>e. rmq_msg (callback e s) = Some body \<and> rmq_id (callback e s) = rmq_id s) \<and>
     (\<forall>msg retries r s1. enqueue msg retries env s = Some (r, s1) \<longrightarrow>
        rmq_msg s1 = Some body \<and> rmq_id s1 = rmq_id s) \<and>
     rmq_msg (snd (acknowledge h s)) = None \<and> rmq_id (snd (acknowledge h s)) = None"
proof -
  have enq: "rmq_msg s1 = Some body \<and> rmq_id s1 = rmq_id s"
    if "enqueue msg retries env s = Some (r, s1)" for msg retries r s1
    using enqueue_invariant
      [OF that, where P = "\<lambda>x. rmq_msg x = Some body \<and> rmq_id x = rmq_id s"]
      sleep_held assms
    by (simp add: record_publish_def publish_def call_def Let_def)
  have ack: "rmq_msg (snd (acknowledge h s)) = None \<and> rmq_id (snd (acknowledge h s)) = None"
    by (simp add: acknowledge_def call_def Let_def split: option.splits)
  show ?thesis
    using perform_held [OF assms refl, of env] callback_held [OF assms] enq ack by blast
qed

theorem dequeue_keeps_held_witness:
  "rmq_msg holding = Some ''first'' \<and> rmq_id holding = Some 1 \<and>
   fst (perform churn [Dequeue 0, Wait, Dequeue 3, Dequeue (- 1), Wait, Dequeue 0] holding) =
     [Some (''first'', Some 1), Some (''first'', Some 1), None, Some (''first'', Some 1)] \<and>
   rmq_msg (snd (perform churn [Dequeue 0, Wait, Dequeue 3, Dequeue (- 1), Wait, Dequeue 0]
                   holding)) = Some ''first'' \<and>
   rmq_msg (callback (RunIteration (Some Connection)) holding) = Some ''first''"
proof -
  have h: "rmq_msg holding = Some ''first''" "rmq_id holding = Some 1"
    by (simp_all add: holding_def state_defs)
  show ?thesis
    using dequeue_keeps_held
        [OF h(1), where env = churn and h = 0
          and acts = "[Dequeue 0, Wait, Dequeue 3, Dequeue (- 1), Wait, Dequeue 0]"] h
    by (simp del: perform.simps)
qed

end
